theory Spec2Isabelle
  imports Complex_Main
begin

section \<open>The robot remote-control client (script\_robot.py)\<close>

text \<open>
  The client reads the keyboard through pygame, mixes the held keys into per-wheel motor
  powers and streams one command per frame over a TCP socket, reconnecting after network
  errors and sending a stop command whenever a socket is torn down.

  Conventions of the embedding:
  \<^item> Python floats are modelled as exact rationals (\<open>rat\<close>); rounding is not modelled. The
    theorems below are stated so that they do not depend on a value that rounding changes
    (they compare against 0, 1 and 255, or evaluate products of small integers).
  \<^item> Python's \<open>int(x)\<close> on a float truncates toward zero.
  \<^item> The pygame key table \<open>keys[...]\<close> is a function from key codes to booleans.
  \<^item> The command dictionary has a fixed set of keys and is a record; \<open>json.dumps\<close> and
    \<open>encode\<close> are not modelled, a message on the wire is the dictionary itself.
  \<^item> A run is a function of a finite script of the environment's answers (what each
    socket call does, which events each poll delivers, which keys are held) and yields
    the list of the program's observable actions in order.
  \<^item> The calls that can raise are \<open>socket.socket\<close>, \<open>connect\<close> and \<open>sendall\<close>; the pygame
    calls, \<open>settimeout\<close> and \<open>close\<close> are taken to return. The window set-up before the
    retry loop is left out.
  \<^item> Time appears only as the calls that wait: \<open>time.sleep(5)\<close> and \<open>clock.tick(30)\<close>.
\<close>

subsection \<open>Configuration and data\<close>

definition MAX_MOTOR_POWER :: int where
  "MAX_MOTOR_POWER = 255"

definition speed_step :: rat where
  "speed_step = 1 / 10"

datatype key = K_w | K_s | K_a | K_d | K_UP | K_DOWN | K_ESCAPE | K_SPACE | K_other nat

record motor_command =
  front_left :: int
  back_left :: int
  front_right :: int
  back_right :: int
  active :: bool

definition py_int :: "rat \<Rightarrow> int" where
  "py_int q = (if 0 \<le> q then \<lfloor>q\<rfloor> else \<lceil>q\<rceil>)"

subsection \<open>The input mixer\<close>

text \<open>
  \<open>get_keyboard_inputs_from_pygame(keys, current_speed)\<close>, statement by statement. The
  intermediate values are exposed as \<open>mix_inputs\<close> (the pair \<open>(x_input, y_input)\<close> after the
  diagonal scaling) and \<open>mix_raw\<close> (the pair of raw powers after normalisation).
\<close>

definition mix_inputs :: "(key \<Rightarrow> bool) \<Rightarrow> rat \<times> rat" where
  "mix_inputs keys =
    (let forward = keys K_w;
         backward = keys K_s;
         left = keys K_a;
         right = keys K_d;
         y_input = 0;
         x_input = 0;
         y_input = (if forward then y_input + 1 else y_input);
         y_input = (if backward then y_input - 1 else y_input);
         x_input = (if left then x_input - 1 else x_input);
         x_input = (if right then x_input + 1 else x_input)
     in if x_input \<noteq> 0 \<and> y_input \<noteq> 0
        then (x_input * (7071 / 10000), y_input * (7071 / 10000))
        else (x_input, y_input))"

definition mix_raw :: "rat \<times> rat \<Rightarrow> rat \<times> rat" where
  "mix_raw xy =
    (let x_input = fst xy;
         y_input = snd xy;
         left_power_raw = y_input - x_input;
         right_power_raw = y_input + x_input;
         max_raw_power = max \<bar>left_power_raw\<bar> \<bar>right_power_raw\<bar>
     in if max_raw_power > 1
        then (left_power_raw / max_raw_power, right_power_raw / max_raw_power)
        else (left_power_raw, right_power_raw))"

definition get_keyboard_inputs_from_pygame :: "(key \<Rightarrow> bool) \<Rightarrow> rat \<Rightarrow> motor_command" where
  "get_keyboard_inputs_from_pygame keys current_speed =
    (let raw = mix_raw (mix_inputs keys);
         left_final_power = fst raw * current_speed * of_int MAX_MOTOR_POWER;
         right_final_power = snd raw * current_speed * of_int MAX_MOTOR_POWER
     in \<lparr> front_left = py_int left_final_power,
          back_left = py_int left_final_power,
          front_right = py_int right_final_power,
          back_right = py_int right_final_power,
          active = True \<rparr>)"

text \<open>Key tables with exactly the listed keys held.\<close>

definition held :: "key list \<Rightarrow> key \<Rightarrow> bool" where
  "held ks k = (k \<in> set ks)"

subsection \<open>Events and control state\<close>

text \<open>
  The module globals \<open>running\<close> and \<open>current_speed\<close> and the local \<open>is_sending\<close> of
  \<open>run_network_client\<close> are the state threaded through both loops.
\<close>

record ctl =
  running :: bool
  current_speed :: rat
  is_sending :: bool

definition initial_ctl :: ctl where
  "initial_ctl = \<lparr> running = True, current_speed = 1 / 2, is_sending = False \<rparr>"

datatype event =
    QUIT
  | MOUSEBUTTONDOWN nat "int \<times> int"
  | KEYDOWN key
  | OTHER_EVENT

text \<open>
  \<open>button_rect = pygame.Rect(150, 125, 100, 50)\<close> as (left, top, width, height);
  \<open>collidepoint\<close> is pygame's: the right and bottom edges are outside.
\<close>

definition button_rect :: "int \<times> int \<times> int \<times> int" where
  "button_rect = (150, 125, 100, 50)"

fun collidepoint :: "int \<times> int \<times> int \<times> int \<Rightarrow> int \<times> int \<Rightarrow> bool" where
  "collidepoint (l, t, w, h) (x, y) = (l \<le> x \<and> x < l + w \<and> t \<le> y \<and> y < t + h)"

text \<open>
  Exceptions: the four classes named in the first \<open>except\<close> clause, and one constructor
  for every other subclass of \<open>Exception\<close>. (\<open>KeyboardInterrupt\<close> and the other
  non-\<open>Exception\<close> classes are not modelled.)
\<close>

datatype exn =
    SocketTimeout
  | ConnectionRefusedError
  | ConnectionResetError
  | BrokenPipeError
  | OtherException

fun is_network_error :: "exn \<Rightarrow> bool" where
  "is_network_error SocketTimeout = True"
| "is_network_error ConnectionRefusedError = True"
| "is_network_error ConnectionResetError = True"
| "is_network_error BrokenPipeError = True"
| "is_network_error OtherException = False"

text \<open>The lines the program prints.\<close>

datatype log =
    Attempting_to_connect
  | Connection_successful
  | Increased_speed rat
  | Decreased_speed rat
  | Escape_pressed
  | Space_pressed
  | Network_error exn
  | Unexpected_error exn
  | Sent_final_stop
  | Could_not_send_final_stop exn
  | Client_shut_down

text \<open>
  What the program does to the outside world, in order: console output, the socket calls
  with their outcome (\<open>None\<close> is a normal return, \<open>Some e\<close> the exception raised), the
  event poll with the events it delivered, the frame drawn (the toggle, the W/A/S/D
  highlights and the command shown), the frame-rate wait and the retry wait.
\<close>

datatype obs =
    Print log
  | ConnectAttempt "exn option"
  | PollEvents "event list"
  | SendAttempt motor_command "exn option"
  | Render bool "bool \<times> bool \<times> bool \<times> bool" "motor_command option"
  | ClockTick nat
  | CloseSocket
  | Sleep nat
  | PygameQuit

definition stop_command :: motor_command where
  "stop_command = \<lparr> front_left = 0, back_left = 0, front_right = 0, back_right = 0,
                     active = False \<rparr>"

subsection \<open>The event handler (lines 100 to 119)\<close>

fun handle_event :: "event \<Rightarrow> ctl \<Rightarrow> ctl \<times> obs list" where
  "handle_event QUIT c = (c\<lparr>running := False\<rparr>, [])"
| "handle_event (MOUSEBUTTONDOWN button pos) c =
     (if button = 1
      then (if collidepoint button_rect pos
            then (c\<lparr>is_sending := \<not> is_sending c\<rparr>, [])
            else (c, []))
      else (c, []))"
| "handle_event (KEYDOWN k) c =
     (if k = K_UP
      then (let s = min 1 (current_speed c + speed_step)
            in (c\<lparr>current_speed := s\<rparr>, [Print (Increased_speed s)]))
      else if k = K_DOWN
      then (let s = max 0 (current_speed c - speed_step)
            in (c\<lparr>current_speed := s\<rparr>, [Print (Decreased_speed s)]))
      else if k = K_ESCAPE
      then (c\<lparr>running := False\<rparr>, [Print Escape_pressed])
      else if k = K_SPACE
      then (c\<lparr>is_sending := False\<rparr>, [Print Space_pressed])
      else (c, []))"
| "handle_event OTHER_EVENT c = (c, [])"

fun process_events :: "event list \<Rightarrow> ctl \<Rightarrow> ctl \<times> obs list" where
  "process_events [] c = (c, [])"
| "process_events (e # es) c =
     (case handle_event e c of (c1, o1) \<Rightarrow>
        (case process_events es c1 of (c2, o2) \<Rightarrow> (c2, o1 @ o2)))"

subsection \<open>The socket\<close>

text \<open>
  A socket object records whether its \<open>connect\<close> returned. What \<open>sendall\<close> does is the
  network's answer (the third argument) on every socket, also on one whose \<open>connect\<close>
  raised: after a refused connection the call raises, but after a \<open>connect\<close> that timed
  out the handshake is still in progress, the call waits for it, and it can deliver the
  message or raise.
\<close>

datatype socket = Socket (is_connected: bool)

definition sendall :: "socket \<Rightarrow> motor_command \<Rightarrow> exn option \<Rightarrow> exn option" where
  "sendall sock message network = network"

subsection \<open>One frame of the connected loop (lines 100 to 165)\<close>

record tick_in =
  events :: "event list"
  pressed :: "key \<Rightarrow> bool"
  send_result :: "exn option"

text \<open>Lines 123 to 128: the variables \<open>commands\<close> and \<open>message_to_send\<close>.\<close>

definition frame_commands :: "tick_in \<Rightarrow> ctl \<Rightarrow> motor_command option" where
  "frame_commands t c =
     (if is_sending c
      then Some (get_keyboard_inputs_from_pygame (pressed t) (current_speed c))
      else None)"

definition message_to_send :: "motor_command option \<Rightarrow> motor_command" where
  "message_to_send commands = (case commands of Some cmd \<Rightarrow> cmd | None \<Rightarrow> stop_command)"

definition tick :: "socket \<Rightarrow> tick_in \<Rightarrow> ctl \<Rightarrow> ctl \<times> obs list \<times> exn option" where
  "tick sock t c =
     (case process_events (events t) c of (c1, printed) \<Rightarrow>
        (let keys = pressed t;
             commands = frame_commands t c1;
             message = message_to_send commands
         in case sendall sock message (send_result t) of
              Some e \<Rightarrow>
                (c1, PollEvents (events t) # printed @ [SendAttempt message (Some e)], Some e)
            | None \<Rightarrow>
                (c1, PollEvents (events t) # printed @
                     [SendAttempt message None,
                      Render (is_sending c1) (keys K_w, keys K_a, keys K_s, keys K_d) commands,
                      ClockTick 30],
                 None)))"

subsection \<open>The connected loop (line 99)\<close>

text \<open>
  The environment's answers for a run are a finite script; a loop that is still running
  when its script ends has been observed up to there (\<open>StillRunning\<close>), and the run's
  observations are a prefix of the program's.
\<close>

datatype exit = Raised exn | LoopExit | StillRunning

fun connected_loop :: "socket \<Rightarrow> tick_in list \<Rightarrow> ctl \<Rightarrow> ctl \<times> obs list \<times> exit" where
  "connected_loop sock [] c = (c, [], if running c then StillRunning else LoopExit)"
| "connected_loop sock (t # ts) c =
     (if \<not> running c then (c, [], LoopExit)
      else (case tick sock t c of
              (c1, o1, Some e) \<Rightarrow> (c1, o1, Raised e)
            | (c1, o1, None) \<Rightarrow>
                (case connected_loop sock ts c1 of (c2, o2, x) \<Rightarrow> (c2, o1 @ o2, x))))"

subsection \<open>One pass of the retry loop (lines 90 to 183)\<close>

record session_in =
  socket_result :: "exn option"
  connect_result :: "exn option"
  ticks :: "tick_in list"
  final_send_result :: "exn option"

text \<open>The \<open>try\<close> body; it also returns \<open>client_socket\<close> (\<open>None\<close> as in the source).\<close>

definition try_body :: "session_in \<Rightarrow> ctl \<Rightarrow> ctl \<times> obs list \<times> socket option \<times> exit" where
  "try_body s c =
     (case socket_result s of
        Some e \<Rightarrow> (c, [Print Attempting_to_connect], None, Raised e)
      | None \<Rightarrow>
          (case connect_result s of
             Some e \<Rightarrow>
               (c, [Print Attempting_to_connect, ConnectAttempt (Some e)],
                Some (Socket False), Raised e)
           | None \<Rightarrow>
               (case connected_loop (Socket True) (ticks s) c of (c1, o1, x) \<Rightarrow>
                  (c1, [Print Attempting_to_connect, ConnectAttempt None,
                        Print Connection_successful] @ o1,
                   Some (Socket True), x))))"

text \<open>The two \<open>except\<close> clauses.\<close>

definition except_clause :: "exn \<Rightarrow> ctl \<Rightarrow> ctl \<times> obs list" where
  "except_clause e c =
     (if is_network_error e then (c, [Print (Network_error e)])
      else (c\<lparr>running := False\<rparr>, [Print (Unexpected_error e)]))"

text \<open>The \<open>finally\<close> clause: the final stop command and \<open>close\<close>, then the retry wait.\<close>

definition final_stop :: "socket option \<Rightarrow> exn option \<Rightarrow> obs list" where
  "final_stop client_socket network =
     (case client_socket of
        None \<Rightarrow> []
      | Some sock \<Rightarrow>
          (case sendall sock stop_command network of
             None \<Rightarrow> [SendAttempt stop_command None, Print Sent_final_stop]
           | Some final_e \<Rightarrow>
               [SendAttempt stop_command (Some final_e),
                Print (Could_not_send_final_stop final_e)])
          @ [CloseSocket])"

definition finally_clause :: "socket option \<Rightarrow> exn option \<Rightarrow> ctl \<Rightarrow> obs list" where
  "finally_clause client_socket network c =
     final_stop client_socket network @ (if running c then [Sleep 5] else [])"

text \<open>
  One pass. The boolean says whether the pass ended (\<open>False\<close>: the script ended inside
  the connected loop).
\<close>

definition session :: "session_in \<Rightarrow> ctl \<Rightarrow> ctl \<times> obs list \<times> bool" where
  "session s c =
     (case try_body s c of
        (c1, o1, client_socket, StillRunning) \<Rightarrow> (c1, o1, False)
      | (c1, o1, client_socket, LoopExit) \<Rightarrow>
          (c1, o1 @ finally_clause client_socket (final_send_result s) c1, True)
      | (c1, o1, client_socket, Raised e) \<Rightarrow>
          (case except_clause e c1 of (c2, o2) \<Rightarrow>
             (c2, o1 @ o2 @ finally_clause client_socket (final_send_result s) c2, True)))"

subsection \<open>The retry loop (line 89) and the program\<close>

text \<open>The boolean says whether the loop was left (\<open>running\<close> found false).\<close>

fun retry_loop :: "session_in list \<Rightarrow> ctl \<Rightarrow> ctl \<times> obs list \<times> bool" where
  "retry_loop [] c = (c, [], \<not> running c)"
| "retry_loop (s # ss) c =
     (if \<not> running c then (c, [], True)
      else (case session s c of
              (c1, o1, False) \<Rightarrow> (c1, o1, False)
            | (c1, o1, True) \<Rightarrow>
                (case retry_loop ss c1 of (c2, o2, left) \<Rightarrow> (c2, o1 @ o2, left))))"

definition run_network_client :: "session_in list \<Rightarrow> obs list \<times> bool" where
  "run_network_client script =
     (case retry_loop script initial_ctl of
        (c, tr, True) \<Rightarrow> (tr @ [PygameQuit, Print Client_shut_down], True)
      | (c, tr, False) \<Rightarrow> (tr, False))"

subsection \<open>Reading a trace\<close>

text \<open>The commands that reached the wire: the sends that returned.\<close>

fun delivered :: "obs \<Rightarrow> motor_command option" where
  "delivered (SendAttempt m None) = Some m"
| "delivered x = None"

definition on_wire :: "obs list \<Rightarrow> motor_command list" where
  "on_wire tr = List.map_filter delivered tr"

fun is_connect :: "obs \<Rightarrow> bool" where
  "is_connect (ConnectAttempt r) = True"
| "is_connect x = False"

text \<open>The trace up to and including the first \<open>connect\<close> that returned.\<close>

fun until_connected :: "obs list \<Rightarrow> obs list" where
  "until_connected [] = []"
| "until_connected (x # xs) = (if x = ConnectAttempt None then [x] else x # until_connected xs)"

text \<open>
  The seconds slept between each \<open>connect\<close> and the next one; the first argument is the
  time slept since the last \<open>connect\<close>, if there was one.
\<close>

fun gaps_from :: "nat option \<Rightarrow> obs list \<Rightarrow> nat list" where
  "gaps_from acc [] = []"
| "gaps_from acc (ConnectAttempt r # xs) =
     (case acc of None \<Rightarrow> [] | Some n \<Rightarrow> [n]) @ gaps_from (Some 0) xs"
| "gaps_from acc (Sleep n # xs) = gaps_from (map_option (\<lambda>a. a + n) acc) xs"
| "gaps_from acc (x # xs) = gaps_from acc xs"

definition gaps :: "obs list \<Rightarrow> nat list" where
  "gaps tr = gaps_from None tr"

text \<open>
  A shutdown signal in a trace: a poll that delivered a quit event or the escape key, or
  the line printed by the second \<open>except\<close> clause, which clears \<open>running\<close>.
\<close>

fun shutdown_event :: "event \<Rightarrow> bool" where
  "shutdown_event QUIT = True"
| "shutdown_event (KEYDOWN k) = (k = K_ESCAPE)"
| "shutdown_event e = False"

fun is_shutdown_signal :: "obs \<Rightarrow> bool" where
  "is_shutdown_signal (PollEvents evs) = (\<exists>e\<in>set evs. shutdown_event e)"
| "is_shutdown_signal (Print (Unexpected_error e)) = True"
| "is_shutdown_signal x = False"

fun is_send :: "obs \<Rightarrow> bool" where
  "is_send (SendAttempt m r) = True"
| "is_send x = False"



text \<open>What a frame of the connected loop can emit.\<close>

fun frame_obs :: "obs \<Rightarrow> bool" where
  "frame_obs (PollEvents evs) = True"
| "frame_obs (Print (Increased_speed s)) = True"
| "frame_obs (Print (Decreased_speed s)) = True"
| "frame_obs (Print Escape_pressed) = True"
| "frame_obs (Print Space_pressed) = True"
| "frame_obs (SendAttempt m r) = True"
| "frame_obs (Render b k m) = True"
| "frame_obs (ClockTick n) = True"
| "frame_obs x = False"









subsection \<open>Example scripts\<close>

definition idle_tick :: tick_in where
  "idle_tick = \<lparr> events = [], pressed = held [], send_result = None \<rparr>"



definition lost_tick :: tick_in where
  "lost_tick = \<lparr> events = [], pressed = held [], send_result = Some ConnectionResetError \<rparr>"

definition pipe_tick :: tick_in where
  "pipe_tick = \<lparr> events = [], pressed = held [], send_result = Some BrokenPipeError \<rparr>"

text \<open>Nobody listens: \<open>connect\<close> is refused, and the final stop command cannot be sent.\<close>

definition refused_session :: session_in where
  "refused_session =
     \<lparr> socket_result = None, connect_result = Some ConnectionRefusedError, ticks = [],
       final_send_result = Some BrokenPipeError \<rparr>"

text \<open>\<open>connect\<close> times out, and so does the final stop command.\<close>

definition timeout_session :: session_in where
  "timeout_session =
     \<lparr> socket_result = None, connect_result = Some SocketTimeout, ticks = [],
       final_send_result = Some SocketTimeout \<rparr>"

text \<open>
  \<open>connect\<close> times out, but the handshake completes while the final stop command waits
  for it: the stop command is delivered.
\<close>

definition late_handshake_session :: session_in where
  "late_handshake_session =
     \<lparr> socket_result = None, connect_result = Some SocketTimeout, ticks = [],
       final_send_result = None \<rparr>"

text \<open>\<open>connect\<close> raises an error outside the four network classes (no route to host).\<close>

definition unreachable_session :: session_in where
  "unreachable_session =
     \<lparr> socket_result = None, connect_result = Some OtherException, ticks = [],
       final_send_result = Some BrokenPipeError \<rparr>"

definition idle_session :: session_in where
  "idle_session =
     \<lparr> socket_result = None, connect_result = None, ticks = [idle_tick],
       final_send_result = None \<rparr>"

text \<open>The connection is reset in the second frame.\<close>

definition lost_session :: session_in where
  "lost_session =
     \<lparr> socket_result = None, connect_result = None, ticks = [idle_tick, lost_tick],
       final_send_result = Some BrokenPipeError \<rparr>"

text \<open>The first send meets a broken pipe.\<close>

definition pipe_session :: session_in where
  "pipe_session =
     \<lparr> socket_result = None, connect_result = None, ticks = [pipe_tick],
       final_send_result = Some BrokenPipeError \<rparr>"


subsection \<open>Mixer: helper facts\<close>

lemma py_int_of_int: "py_int (of_int n) = n"
  by (simp add: py_int_def)

lemma py_int_abs_le:
  assumes "\<bar>q\<bar> \<le> of_int n"
  shows "\<bar>py_int q\<bar> \<le> n"
proof (cases "0 \<le> q")
  case True
  then have "py_int q = \<lfloor>q\<rfloor>" by (simp add: py_int_def)
  moreover have "0 \<le> \<lfloor>q\<rfloor>" using True by simp
  moreover have "\<lfloor>q\<rfloor> \<le> n" using assms True by (simp add: floor_le_iff)
  ultimately show ?thesis by simp
next
  case False
  then have "py_int q = \<lceil>q\<rceil>" by (simp add: py_int_def)
  moreover have "\<lceil>q\<rceil> \<le> 0" using False by (simp add: ceiling_le_iff)
  moreover have "- n \<le> \<lceil>q\<rceil>" using assms False by (simp add: le_ceiling_iff)
  ultimately show ?thesis by simp
qed

lemma mix_raw_bound: "\<bar>fst (mix_raw xy)\<bar> \<le> 1 \<and> \<bar>snd (mix_raw xy)\<bar> \<le> 1"
proof -
  obtain x y where xy: "xy = (x, y)" by (cases xy)
  define m where "m = max \<bar>y - x\<bar> \<bar>y + x\<bar>"
  show ?thesis
  proof (cases "m > 1")
    case True
    then have "\<bar>(y - x) / m\<bar> \<le> 1" "\<bar>(y + x) / m\<bar> \<le> 1"
      by (simp_all add: m_def divide_le_eq)
    with True show ?thesis by (simp add: mix_raw_def xy m_def Let_def)
  next
    case False
    then have "\<bar>y - x\<bar> \<le> 1" "\<bar>y + x\<bar> \<le> 1"
      unfolding m_def by linarith+
    with False show ?thesis by (simp add: mix_raw_def xy m_def Let_def)
  qed
qed

lemma scaled_power_bound:
  assumes r: "\<bar>r\<bar> \<le> 1" and s: "0 \<le> s" "s \<le> 1"
  shows "\<bar>py_int (r * s * of_int MAX_MOTOR_POWER)\<bar> \<le> MAX_MOTOR_POWER"
proof -
  have "\<bar>r * s\<bar> = \<bar>r\<bar> * s" using s by (simp add: abs_mult)
  also have "\<dots> \<le> 1 * 1" using r s by (intro mult_mono) simp_all
  finally have "\<bar>r * s\<bar> * 255 \<le> 255" by simp
  then have "\<bar>r * s * of_int MAX_MOTOR_POWER\<bar> \<le> of_int MAX_MOTOR_POWER"
    by (simp add: MAX_MOTOR_POWER_def abs_mult)
  then show ?thesis by (rule py_int_abs_le)
qed

lemma mixer_power_bound:
  assumes "0 \<le> s" "s \<le> 1"
  shows "\<bar>front_left (get_keyboard_inputs_from_pygame keys s)\<bar> \<le> MAX_MOTOR_POWER
       \<and> \<bar>back_left (get_keyboard_inputs_from_pygame keys s)\<bar> \<le> MAX_MOTOR_POWER
       \<and> \<bar>front_right (get_keyboard_inputs_from_pygame keys s)\<bar> \<le> MAX_MOTOR_POWER
       \<and> \<bar>back_right (get_keyboard_inputs_from_pygame keys s)\<bar> \<le> MAX_MOTOR_POWER"
  using mix_raw_bound [of "mix_inputs keys"] assms
  by (simp add: get_keyboard_inputs_from_pygame_def Let_def scaled_power_bound)

subsection \<open>Mixer: the claims\<close>

text \<open>
  Claim C5. With only the forward key held (intent (0, 1)), speed 1.0 and
  \<open>MAX_MOTOR_POWER = 255\<close>, the mixer gives power 255 to all four motors.
\<close>

theorem mixer_full_forward:
  assumes "keys K_w" "\<not> keys K_s" "\<not> keys K_a" "\<not> keys K_d"
  shows "get_keyboard_inputs_from_pygame keys 1 =
           \<lparr> front_left = 255, back_left = 255, front_right = 255, back_right = 255,
             active = True \<rparr>
         \<and> MAX_MOTOR_POWER = 255"
  using assms
  by (simp add: get_keyboard_inputs_from_pygame_def mix_inputs_def mix_raw_def
      MAX_MOTOR_POWER_def py_int_def)

theorem mixer_full_forward_witness:
  "get_keyboard_inputs_from_pygame (held [K_w]) 1 =
     \<lparr> front_left = 255, back_left = 255, front_right = 255, back_right = 255,
       active = True \<rparr>"
  using mixer_full_forward [of "held [K_w]"] by (simp add: held_def)

text \<open>
  Claim C6. With the forward and right keys held (intent (1, 1)) both inputs are scaled
  by 0.7071, the raw powers (0, 1.4142) are normalised to (0, 1), and for every speed
  in [0, 1] no motor power exceeds \<open>MAX_MOTOR_POWER\<close> in magnitude.
\<close>

theorem mixer_diagonal_bound:
  assumes "keys K_w" "keys K_d" "\<not> keys K_s" "\<not> keys K_a" and "0 \<le> s" "s \<le> 1"
  shows "mix_inputs keys = (7071 / 10000, 7071 / 10000)
       \<and> mix_raw (mix_inputs keys) = (0, 1)
       \<and> \<bar>front_left (get_keyboard_inputs_from_pygame keys s)\<bar> \<le> MAX_MOTOR_POWER
       \<and> \<bar>back_left (get_keyboard_inputs_from_pygame keys s)\<bar> \<le> MAX_MOTOR_POWER
       \<and> \<bar>front_right (get_keyboard_inputs_from_pygame keys s)\<bar> \<le> MAX_MOTOR_POWER
       \<and> \<bar>back_right (get_keyboard_inputs_from_pygame keys s)\<bar> \<le> MAX_MOTOR_POWER"
proof -
  have i: "mix_inputs keys = (7071 / 10000, 7071 / 10000)"
    using assms(1-4) by (simp add: mix_inputs_def)
  have r: "mix_raw (7071 / 10000, 7071 / 10000) = (0, 1)"
    by (simp add: mix_raw_def)
  show ?thesis using i r mixer_power_bound [OF assms(5,6), of keys] by simp
qed

theorem mixer_diagonal_bound_witness:
  "mix_raw (mix_inputs (held [K_w, K_d])) = (0, 1)
   \<and> \<bar>front_left (get_keyboard_inputs_from_pygame (held [K_w, K_d]) 1)\<bar> \<le> MAX_MOTOR_POWER
   \<and> \<bar>front_right (get_keyboard_inputs_from_pygame (held [K_w, K_d]) 1)\<bar> \<le> MAX_MOTOR_POWER"
proof -
  have k: "held [K_w, K_d] K_w" "held [K_w, K_d] K_d"
    "\<not> held [K_w, K_d] K_s" "\<not> held [K_w, K_d] K_a"
    by (simp_all add: held_def)
  have s: "(0::rat) \<le> 1" "(1::rat) \<le> 1" by simp_all
  from mixer_diagonal_bound [OF k s] show ?thesis by blast
qed

text \<open>
  Claim C7. With only the right key held (intent (1, 0)), speed 1.0 and
  \<open>MAX_MOTOR_POWER = 255\<close>, the two sides get powers of equal magnitude 255 and opposite
  signs. Of the two sign conventions the claim allows, the program has the second:
  \<open>left_power_raw = y_input - x_input\<close> and \<open>right_power_raw = y_input + x_input\<close>, so the
  left motors get -255 and the right motors +255.
\<close>

theorem mixer_right_turn:
  assumes "keys K_d" "\<not> keys K_a" "\<not> keys K_w" "\<not> keys K_s"
  shows "get_keyboard_inputs_from_pygame keys 1 =
           \<lparr> front_left = - 255, back_left = - 255, front_right = 255, back_right = 255,
             active = True \<rparr>
       \<and> \<bar>front_left (get_keyboard_inputs_from_pygame keys 1)\<bar> = MAX_MOTOR_POWER
       \<and> \<bar>front_right (get_keyboard_inputs_from_pygame keys 1)\<bar> = MAX_MOTOR_POWER
       \<and> front_left (get_keyboard_inputs_from_pygame keys 1) =
           - front_right (get_keyboard_inputs_from_pygame keys 1)
       \<and> MAX_MOTOR_POWER = 255"
  using assms
  by (simp add: get_keyboard_inputs_from_pygame_def mix_inputs_def mix_raw_def
      MAX_MOTOR_POWER_def py_int_def)

theorem mixer_right_turn_witness:
  "get_keyboard_inputs_from_pygame (held [K_d]) 1 =
     \<lparr> front_left = - 255, back_left = - 255, front_right = 255, back_right = 255,
       active = True \<rparr>
   \<and> front_left (get_keyboard_inputs_from_pygame (held [K_d]) 1) =
       - front_right (get_keyboard_inputs_from_pygame (held [K_d]) 1)"
  using mixer_right_turn [of "held [K_d]"] by (simp add: held_def)

text \<open>
  Claim C10. Whatever the keys and the speed, the mixer's command gives both motors of
  a side the same power and has \<open>active\<close> set.
\<close>

theorem mixer_sides_paired:
  "front_left (get_keyboard_inputs_from_pygame keys s) =
     back_left (get_keyboard_inputs_from_pygame keys s)
   \<and> front_right (get_keyboard_inputs_from_pygame keys s) =
     back_right (get_keyboard_inputs_from_pygame keys s)
   \<and> active (get_keyboard_inputs_from_pygame keys s)"
  by (simp add: get_keyboard_inputs_from_pygame_def Let_def)

subsection \<open>The throttle\<close>

text \<open>
  Only the event handler writes \<open>current_speed\<close>; the facts below follow it through the
  frame, both loops and the handlers.
\<close>

lemma handle_event_speed:
  assumes "0 \<le> current_speed c" "current_speed c \<le> 1"
  shows "0 \<le> current_speed (fst (handle_event e c)) \<and> current_speed (fst (handle_event e c)) \<le> 1"
  using assms by (cases e) (auto simp: Let_def speed_step_def)

lemma process_events_Cons_fst:
  "fst (process_events (e # es) c) = fst (process_events es (fst (handle_event e c)))"
  by (simp add: case_prod_beta)

lemma process_events_speed:
  assumes "0 \<le> current_speed c" "current_speed c \<le> 1"
  shows "0 \<le> current_speed (fst (process_events evs c))
       \<and> current_speed (fst (process_events evs c)) \<le> 1"
  using assms
proof (induction evs arbitrary: c)
  case Nil
  then show ?case by simp
next
  case (Cons e evs)
  have b: "0 \<le> current_speed (fst (handle_event e c))" "current_speed (fst (handle_event e c)) \<le> 1"
    using handle_event_speed [OF Cons.prems, of e] by simp_all
  show ?case using Cons.IH [OF b] by (simp only: process_events_Cons_fst)
qed

lemma tick_fst: "fst (tick sock t c) = fst (process_events (events t) c)"
  by (simp add: tick_def Let_def case_prod_beta split: option.splits)

lemma connected_loop_Cons_fst:
  "fst (connected_loop sock (t # ts) c) =
     (if \<not> running c then c
      else if snd (snd (tick sock t c)) = None
           then fst (connected_loop sock ts (fst (tick sock t c)))
           else fst (tick sock t c))"
  by (simp add: case_prod_beta split: option.splits)

lemma connected_loop_speed:
  assumes "0 \<le> current_speed c" "current_speed c \<le> 1"
  shows "0 \<le> current_speed (fst (connected_loop sock ts c))
       \<and> current_speed (fst (connected_loop sock ts c)) \<le> 1"
  using assms
proof (induction ts arbitrary: c)
  case Nil
  then show ?case by simp
next
  case (Cons t ts)
  have b: "0 \<le> current_speed (fst (tick sock t c))" "current_speed (fst (tick sock t c)) \<le> 1"
    using process_events_speed [OF Cons.prems, of "events t"] by (simp_all add: tick_fst)
  show ?case using Cons.IH [OF b] b Cons.prems
    by (simp add: connected_loop_Cons_fst del: connected_loop.simps)
qed

lemma try_body_fst:
  "fst (try_body s c) =
     (if socket_result s = None \<and> connect_result s = None
      then fst (connected_loop (Socket True) (ticks s) c) else c)"
  by (simp add: try_body_def case_prod_beta split: option.splits)

lemma session_speed:
  assumes "0 \<le> current_speed c" "current_speed c \<le> 1"
  shows "0 \<le> current_speed (fst (session s c)) \<and> current_speed (fst (session s c)) \<le> 1"
proof -
  have "0 \<le> current_speed (fst (try_body s c)) \<and> current_speed (fst (try_body s c)) \<le> 1"
    using assms connected_loop_speed [OF assms, of "Socket True" "ticks s"]
    by (simp add: try_body_fst)
  then show ?thesis
    by (cases "try_body s c") (auto simp: session_def except_clause_def split: exit.splits)
qed

lemma retry_loop_Cons_fst:
  "fst (retry_loop (s # ss) c) =
     (if \<not> running c then c
      else if snd (snd (session s c))
           then fst (retry_loop ss (fst (session s c)))
           else fst (session s c))"
  by (simp add: case_prod_beta split: bool.splits)

lemma retry_loop_speed:
  assumes "0 \<le> current_speed c" "current_speed c \<le> 1"
  shows "0 \<le> current_speed (fst (retry_loop ss c)) \<and> current_speed (fst (retry_loop ss c)) \<le> 1"
  using assms
proof (induction ss arbitrary: c)
  case Nil
  then show ?case by simp
next
  case (Cons s ss)
  have b: "0 \<le> current_speed (fst (session s c))" "current_speed (fst (session s c)) \<le> 1"
    using session_speed [OF Cons.prems, of s] by simp_all
  show ?case using Cons.IH [OF b] b Cons.prems
    by (simp add: retry_loop_Cons_fst del: retry_loop.simps)
qed

lemma speed_up_from:
  "current_speed c = 1 \<Longrightarrow> current_speed (fst (process_events (replicate n (KEYDOWN K_UP)) c)) = 1"
proof (induction n arbitrary: c)
  case 0
  then show ?case by simp
next
  case (Suc n)
  have "current_speed (fst (handle_event (KEYDOWN K_UP) c)) = 1"
    using Suc.prems by (simp add: speed_step_def)
  from Suc.IH [OF this] show ?case by (simp only: replicate_Suc process_events_Cons_fst)
qed

lemma speed_down_from:
  "current_speed c = 0 \<Longrightarrow> current_speed (fst (process_events (replicate n (KEYDOWN K_DOWN)) c)) = 0"
proof (induction n arbitrary: c)
  case 0
  then show ?case by simp
next
  case (Suc n)
  have "current_speed (fst (handle_event (KEYDOWN K_DOWN) c)) = 0"
    using Suc.prems by (simp add: speed_step_def)
  from Suc.IH [OF this] show ?case by (simp only: replicate_Suc process_events_Cons_fst)
qed

lemma process_events_append_fst:
  "fst (process_events (xs @ ys) c) = fst (process_events ys (fst (process_events xs c)))"
  by (induction xs arbitrary: c) (simp_all add: case_prod_beta)

lemma six_up: "current_speed (fst (process_events (replicate 6 (KEYDOWN K_UP)) initial_ctl)) = 1"
  by (simp add: numeral_eq_Suc initial_ctl_def speed_step_def Let_def)

lemma six_down: "current_speed (fst (process_events (replicate 6 (KEYDOWN K_DOWN)) initial_ctl)) = 0"
  by (simp add: numeral_eq_Suc initial_ctl_def speed_step_def Let_def)

text \<open>
  Claim C8. Starting from the initial speed 0.5, after any sequence of events, and at the
  end of any run of the program, the speed lies in [0, 1]; six or more increments in a
  row leave it at exactly 1.0 and six or more decrements at exactly 0.0. (With exact
  arithmetic five steps reach the bound; in binary floating point, where 0.1 is not
  exact, the sixth step is the one that clamps.)
\<close>

theorem throttle_bounds:
  "0 \<le> current_speed (fst (process_events evs initial_ctl))
   \<and> current_speed (fst (process_events evs initial_ctl)) \<le> 1
   \<and> 0 \<le> current_speed (fst (retry_loop script initial_ctl))
   \<and> current_speed (fst (retry_loop script initial_ctl)) \<le> 1
   \<and> current_speed (fst (process_events (replicate (6 + n) (KEYDOWN K_UP)) initial_ctl)) = 1
   \<and> current_speed (fst (process_events (replicate (6 + n) (KEYDOWN K_DOWN)) initial_ctl)) = 0"
proof -
  have i: "0 \<le> current_speed initial_ctl" "current_speed initial_ctl \<le> 1"
    by (simp_all add: initial_ctl_def)
  have u: "current_speed (fst (process_events (replicate (6 + n) (KEYDOWN K_UP)) initial_ctl)) = 1"
    using speed_up_from [OF six_up, of n]
    by (simp only: replicate_add process_events_append_fst)
  have d: "current_speed (fst (process_events (replicate (6 + n) (KEYDOWN K_DOWN)) initial_ctl)) = 0"
    using speed_down_from [OF six_down, of n]
    by (simp only: replicate_add process_events_append_fst)
  show ?thesis
    using process_events_speed [OF i, of evs] retry_loop_speed [OF i, of script] u d by simp
qed

subsection \<open>Traces: what each part of the program emits\<close>

lemma handle_event_lines:
  "x \<in> set (snd (handle_event e c)) \<Longrightarrow>
     (\<exists>s. x = Print (Increased_speed s)) \<or> (\<exists>s. x = Print (Decreased_speed s))
     \<or> x = Print Escape_pressed \<or> x = Print Space_pressed"
  by (cases e) (auto simp: Let_def split: if_splits)

lemma process_events_Cons_snd:
  "snd (process_events (e # es) c) =
     snd (handle_event e c) @ snd (process_events es (fst (handle_event e c)))"
  by (simp add: case_prod_beta)

lemma process_events_lines:
  "x \<in> set (snd (process_events evs c)) \<Longrightarrow>
     (\<exists>s. x = Print (Increased_speed s)) \<or> (\<exists>s. x = Print (Decreased_speed s))
     \<or> x = Print Escape_pressed \<or> x = Print Space_pressed"
proof (induction evs arbitrary: c)
  case Nil
  then show ?case by simp
next
  case (Cons e evs)
  from Cons.prems have "x \<in> set (snd (handle_event e c))
      \<or> x \<in> set (snd (process_events evs (fst (handle_event e c))))"
    by (simp only: process_events_Cons_snd set_append Un_iff)
  then show ?case using handle_event_lines Cons.IH by blast
qed

lemma tick_trace:
  "fst (snd (tick sock t c)) =
     PollEvents (events t) # snd (process_events (events t) c) @
     (case sendall sock (message_to_send (frame_commands t (fst (process_events (events t) c))))
             (send_result t) of
        Some e \<Rightarrow>
          [SendAttempt (message_to_send (frame_commands t (fst (process_events (events t) c))))
             (Some e)]
      | None \<Rightarrow>
          [SendAttempt (message_to_send (frame_commands t (fst (process_events (events t) c))))
             None,
           Render (is_sending (fst (process_events (events t) c)))
             (pressed t K_w, pressed t K_a, pressed t K_s, pressed t K_d)
             (frame_commands t (fst (process_events (events t) c))),
           ClockTick 30])"
  by (simp add: tick_def Let_def case_prod_beta split: option.splits)

lemma tick_exit:
  "snd (snd (tick sock t c)) =
     sendall sock (message_to_send (frame_commands t (fst (process_events (events t) c))))
       (send_result t)"
  by (simp add: tick_def Let_def case_prod_beta split: option.splits)

lemma message_stop_or_active:
  "active (message_to_send (frame_commands t c)) \<or> message_to_send (frame_commands t c) = stop_command"
  by (simp add: message_to_send_def frame_commands_def get_keyboard_inputs_from_pygame_def Let_def)

lemma tick_sends:
  assumes "SendAttempt m r \<in> set (fst (snd (tick sock t c)))"
  shows "active m \<or> m = stop_command"
proof -
  from assms have "SendAttempt m r \<in> set (snd (process_events (events t) c))
     \<or> m = message_to_send (frame_commands t (fst (process_events (events t) c)))"
    by (auto simp: tick_trace split: option.splits)
  then show ?thesis using process_events_lines message_stop_or_active by blast
qed

lemma connected_loop_Cons_trace:
  "fst (snd (connected_loop sock (t # ts) c)) =
     (if \<not> running c then []
      else if snd (snd (tick sock t c)) = None
           then fst (snd (tick sock t c)) @ fst (snd (connected_loop sock ts (fst (tick sock t c))))
           else fst (snd (tick sock t c)))"
  by (simp add: case_prod_beta split: option.splits)

lemma connected_loop_sends:
  assumes "SendAttempt m r \<in> set (fst (snd (connected_loop sock ts c)))"
  shows "active m \<or> m = stop_command"
  using assms
proof (induction ts arbitrary: c)
  case Nil
  then show ?case by simp
next
  case (Cons t ts)
  from Cons.prems have "SendAttempt m r \<in> set (fst (snd (tick sock t c)))
     \<or> SendAttempt m r \<in> set (fst (snd (connected_loop sock ts (fst (tick sock t c)))))"
    by (simp only: connected_loop_Cons_trace split: if_splits) auto
  then show ?case using tick_sends Cons.IH by blast
qed

lemma try_body_trace:
  "fst (snd (try_body s c)) =
     (case socket_result s of
        Some e \<Rightarrow> [Print Attempting_to_connect]
      | None \<Rightarrow>
          (case connect_result s of
             Some e \<Rightarrow> [Print Attempting_to_connect, ConnectAttempt (Some e)]
           | None \<Rightarrow>
               [Print Attempting_to_connect, ConnectAttempt None, Print Connection_successful]
               @ fst (snd (connected_loop (Socket True) (ticks s) c))))"
  by (simp add: try_body_def case_prod_beta split: option.splits)

lemma try_body_sends:
  assumes "SendAttempt m r \<in> set (fst (snd (try_body s c)))"
  shows "active m \<or> m = stop_command"
  using assms connected_loop_sends
  by (auto simp: try_body_trace split: option.splits)

lemma final_stop_sends:
  "SendAttempt m r \<in> set (final_stop sk n) \<Longrightarrow> m = stop_command"
  by (auto simp: final_stop_def split: option.splits)

lemma finally_clause_sends:
  "SendAttempt m r \<in> set (finally_clause sk n c) \<Longrightarrow> m = stop_command"
  by (auto simp: finally_clause_def dest: final_stop_sends split: if_splits)

lemma session_trace:
  "fst (snd (session s c)) =
     fst (snd (try_body s c)) @
     (case snd (snd (snd (try_body s c))) of
        StillRunning \<Rightarrow> []
      | LoopExit \<Rightarrow>
          finally_clause (fst (snd (snd (try_body s c)))) (final_send_result s)
            (fst (try_body s c))
      | Raised e \<Rightarrow>
          snd (except_clause e (fst (try_body s c))) @
          finally_clause (fst (snd (snd (try_body s c)))) (final_send_result s)
            (fst (except_clause e (fst (try_body s c)))))"
  by (simp add: session_def case_prod_beta split: exit.splits)

lemma except_clause_lines:
  "snd (except_clause e c) =
     [Print (if is_network_error e then Network_error e else Unexpected_error e)]"
  by (simp add: except_clause_def)

lemma session_sends:
  assumes "SendAttempt m r \<in> set (fst (snd (session s c)))"
  shows "active m \<or> m = stop_command"
  using assms try_body_sends finally_clause_sends
  by (auto simp: session_trace except_clause_lines split: exit.splits)

lemma retry_loop_Cons_trace:
  "fst (snd (retry_loop (s # ss) c)) =
     (if \<not> running c then []
      else if snd (snd (session s c))
           then fst (snd (session s c)) @ fst (snd (retry_loop ss (fst (session s c))))
           else fst (snd (session s c)))"
  by (simp add: case_prod_beta split: bool.splits)

lemma retry_loop_sends:
  assumes "SendAttempt m r \<in> set (fst (snd (retry_loop ss c)))"
  shows "active m \<or> m = stop_command"
  using assms
proof (induction ss arbitrary: c)
  case Nil
  then show ?case by simp
next
  case (Cons s ss)
  from Cons.prems have "SendAttempt m r \<in> set (fst (snd (session s c)))
     \<or> SendAttempt m r \<in> set (fst (snd (retry_loop ss (fst (session s c)))))"
    by (simp only: retry_loop_Cons_trace split: if_splits) auto
  then show ?case using session_sends Cons.IH by blast
qed

lemma run_network_client_trace:
  "fst (run_network_client script) =
     fst (snd (retry_loop script initial_ctl)) @
     (if snd (snd (retry_loop script initial_ctl)) then [PygameQuit, Print Client_shut_down]
      else [])"
  by (simp add: run_network_client_def case_prod_beta split: bool.splits)

lemma idle_run:
  "fst (run_network_client [idle_session]) =
     [Print Attempting_to_connect, ConnectAttempt None, Print Connection_successful,
      PollEvents [], SendAttempt stop_command None,
      Render False (False, False, False, False) None, ClockTick 30]"
  by (simp add: run_network_client_def initial_ctl_def idle_session_def idle_tick_def
      session_def try_body_def tick_def frame_commands_def message_to_send_def sendall_def
      held_def Let_def)

subsection \<open>Commands on the wire\<close>

text \<open>
  Claim C1. Every command the program hands to \<open>sendall\<close> (in a frame or in the
  \<open>finally\<close> clause, delivered or not) that has \<open>active\<close> false has all four power
  fields equal to 0.
\<close>

theorem stop_command_invariant:
  "\<forall>m r. SendAttempt m r \<in> set (fst (run_network_client script)) \<longrightarrow> \<not> active m \<longrightarrow>
     front_left m = 0 \<and> back_left m = 0 \<and> front_right m = 0 \<and> back_right m = 0"
proof (intro allI impI)
  fix m r
  assume a: "SendAttempt m r \<in> set (fst (run_network_client script))" and n: "\<not> active m"
  from a have "SendAttempt m r \<in> set (fst (snd (retry_loop script initial_ctl)))"
    by (auto simp: run_network_client_trace split: if_splits)
  with n have "m = stop_command" using retry_loop_sends by blast
  then show "front_left m = 0 \<and> back_left m = 0 \<and> front_right m = 0 \<and> back_right m = 0"
    by (simp add: stop_command_def)
qed

theorem stop_command_invariant_witness:
  "SendAttempt stop_command None \<in> set (fst (run_network_client [idle_session]))
   \<and> \<not> active stop_command
   \<and> front_left stop_command = 0 \<and> back_left stop_command = 0
   \<and> front_right stop_command = 0 \<and> back_right stop_command = 0"
proof -
  have a: "SendAttempt stop_command None \<in> set (fst (run_network_client [idle_session]))"
    by (simp add: idle_run)
  have n: "\<not> active stop_command" by (simp add: stop_command_def)
  from stop_command_invariant [of "[idle_session]"] a n show ?thesis by blast
qed

subsection \<open>Teardown\<close>

lemma try_body_socket:
  "fst (snd (snd (try_body s c))) =
     (case socket_result s of
        Some e \<Rightarrow> None
      | None \<Rightarrow> Some (Socket (connect_result s = None)))"
  by (simp add: try_body_def case_prod_beta split: option.splits)

lemma try_body_exit:
  "snd (snd (snd (try_body s c))) =
     (case socket_result s of
        Some e \<Rightarrow> Raised e
      | None \<Rightarrow>
          (case connect_result s of
             Some e \<Rightarrow> Raised e
           | None \<Rightarrow> snd (snd (connected_loop (Socket True) (ticks s) c))))"
  by (simp add: try_body_def case_prod_beta split: option.splits)

lemma session_ended:
  "snd (snd (session s c)) = (snd (snd (snd (try_body s c))) \<noteq> StillRunning)"
  by (simp add: session_def case_prod_beta split: exit.splits)

lemma session_fst:
  "fst (session s c) =
     (case snd (snd (snd (try_body s c))) of
        Raised e \<Rightarrow> fst (except_clause e (fst (try_body s c)))
      | LoopExit \<Rightarrow> fst (try_body s c)
      | StillRunning \<Rightarrow> fst (try_body s c))"
  by (simp add: session_def case_prod_beta split: exit.splits)

lemma handle_event_frame_obs: "x \<in> set (snd (handle_event e c)) \<Longrightarrow> frame_obs x"
  by (drule handle_event_lines) auto








lemma network_classes:
  "is_network_error e =
     (e \<in> {SocketTimeout, ConnectionRefusedError, ConnectionResetError, BrokenPipeError})"
  by (cases e) simp_all

lemma final_stop_explicit:
  "final_stop (Some sock) r =
     [SendAttempt stop_command r,
      Print (case r of None \<Rightarrow> Sent_final_stop | Some fe \<Rightarrow> Could_not_send_final_stop fe),
      CloseSocket]"
  by (simp add: final_stop_def sendall_def split: option.splits)



subsection \<open>Reconnecting\<close>

lemma try_body_failed_connect:
  assumes "socket_result s = None" "connect_result s = Some e"
  shows "try_body s c =
           (c, [Print Attempting_to_connect, ConnectAttempt (Some e)], Some (Socket False),
            Raised e)"
  using assms by (simp add: try_body_def)

lemma session_failed_connect:
  assumes "socket_result s = None" "connect_result s = Some e"
    "e \<in> {SocketTimeout, ConnectionRefusedError, ConnectionResetError, BrokenPipeError}" "running c"
  shows "session s c =
           (c,
            [Print Attempting_to_connect, ConnectAttempt (Some e), Print (Network_error e),
             SendAttempt stop_command (final_send_result s),
             Print (case final_send_result s of
                      None \<Rightarrow> Sent_final_stop
                    | Some fe \<Rightarrow> Could_not_send_final_stop fe),
             CloseSocket, Sleep 5],
            True)"
proof -
  have n: "is_network_error e" using assms(3) by (simp add: network_classes)
  show ?thesis
    using assms(1,2,4) n
    by (simp add: session_def try_body_failed_connect except_clause_def finally_clause_def
        final_stop_explicit)
qed

lemma session_connected_prefix:
  assumes "socket_result s = None" "connect_result s = None"
  shows "\<exists>tl. fst (snd (session s c)) = [Print Attempting_to_connect, ConnectAttempt None] @ tl"
  using assms by (simp add: session_trace try_body_trace)

lemma late_handshake_run:
  "fst (run_network_client [late_handshake_session, refused_session, idle_session]) =
     [Print Attempting_to_connect, ConnectAttempt (Some SocketTimeout),
      Print (Network_error SocketTimeout),
      SendAttempt stop_command None, Print Sent_final_stop, CloseSocket, Sleep 5,
      Print Attempting_to_connect, ConnectAttempt (Some ConnectionRefusedError),
      Print (Network_error ConnectionRefusedError),
      SendAttempt stop_command (Some BrokenPipeError),
      Print (Could_not_send_final_stop BrokenPipeError), CloseSocket, Sleep 5,
      Print Attempting_to_connect, ConnectAttempt None, Print Connection_successful,
      PollEvents [], SendAttempt stop_command None,
      Render False (False, False, False, False) None, ClockTick 30]"
  by (simp add: run_network_client_def initial_ctl_def late_handshake_session_def
      refused_session_def idle_session_def idle_tick_def session_def try_body_def tick_def
      frame_commands_def message_to_send_def sendall_def except_clause_def
      finally_clause_def final_stop_def held_def Let_def)

text \<open>
  The specification's sentence on reconnecting says that no command is sent before the
  third \<open>connect\<close> succeeds. The \<open>finally\<close> clause sends the stop command on every socket
  object, connected or not. In the run below the first \<open>connect\<close> times out, the handshake
  completes while the final \<open>sendall\<close> waits, and the stop command reaches the wire
  before the second and third attempts.
\<close>

theorem reconnect_counterexample:
  "filter is_connect (until_connected
      (fst (run_network_client [late_handshake_session, refused_session, idle_session]))) =
     [ConnectAttempt (Some SocketTimeout), ConnectAttempt (Some ConnectionRefusedError),
      ConnectAttempt None]
   \<and> on_wire (until_connected
      (fst (run_network_client [late_handshake_session, refused_session, idle_session]))) =
     [stop_command]
   \<and> on_wire (until_connected
      (fst (run_network_client [late_handshake_session, refused_session, idle_session]))) \<noteq> []"
  unfolding late_handshake_run by (simp add: on_wire_def List.map_filter_simps)

text \<open>
  Claim C3, as amended. When the first two \<open>connect\<close> calls raise one of the four network
  errors and the third returns, the program makes exactly these three attempts and
  sleeps 5 seconds between each attempt and the next. Until the third attempt returns
  it tries exactly two sends, the final stop command on each of the two sockets that
  did not connect; whether they are delivered is the network's answer, and nothing but
  the stop command can reach the wire.
\<close>

theorem reconnect_third_attempt:
  assumes s1: "socket_result s1 = None" "connect_result s1 = Some e1"
      "e1 \<in> {SocketTimeout, ConnectionRefusedError, ConnectionResetError, BrokenPipeError}"
    and s2: "socket_result s2 = None" "connect_result s2 = Some e2"
      "e2 \<in> {SocketTimeout, ConnectionRefusedError, ConnectionResetError, BrokenPipeError}"
    and s3: "socket_result s3 = None" "connect_result s3 = None"
    and p: "p = until_connected (fst (run_network_client (s1 # s2 # s3 # rest)))"
  shows "p = [Print Attempting_to_connect, ConnectAttempt (Some e1), Print (Network_error e1),
              SendAttempt stop_command (final_send_result s1),
              Print (case final_send_result s1 of
                       None \<Rightarrow> Sent_final_stop
                     | Some fe \<Rightarrow> Could_not_send_final_stop fe),
              CloseSocket, Sleep 5,
              Print Attempting_to_connect, ConnectAttempt (Some e2), Print (Network_error e2),
              SendAttempt stop_command (final_send_result s2),
              Print (case final_send_result s2 of
                       None \<Rightarrow> Sent_final_stop
                     | Some fe \<Rightarrow> Could_not_send_final_stop fe),
              CloseSocket, Sleep 5,
              Print Attempting_to_connect, ConnectAttempt None]
       \<and> length (filter is_connect p) = 3
       \<and> gaps p = [5, 5]
       \<and> filter is_send p =
           [SendAttempt stop_command (final_send_result s1),
            SendAttempt stop_command (final_send_result s2)]
       \<and> set (on_wire p) \<subseteq> {stop_command}"
proof -
  have r: "running initial_ctl" by (simp add: initial_ctl_def)
  note f1 = session_failed_connect [OF s1 r]
  note f2 = session_failed_connect [OF s2 r]
  obtain tl where t3: "fst (snd (session s3 initial_ctl)) =
      [Print Attempting_to_connect, ConnectAttempt None] @ tl"
    using session_connected_prefix [OF s3] by blast
  have loop: "fst (snd (retry_loop (s1 # s2 # s3 # rest) initial_ctl)) =
      fst (snd (session s1 initial_ctl)) @ fst (snd (session s2 initial_ctl)) @
      fst (snd (session s3 initial_ctl)) @
      (if snd (snd (session s3 initial_ctl))
       then fst (snd (retry_loop rest (fst (session s3 initial_ctl)))) else [])"
    using r by (simp add: retry_loop_Cons_trace f1 f2 del: retry_loop.simps)
  have "\<exists>more. fst (run_network_client (s1 # s2 # s3 # rest)) =
      [Print Attempting_to_connect, ConnectAttempt (Some e1), Print (Network_error e1),
       SendAttempt stop_command (final_send_result s1),
       Print (case final_send_result s1 of
                None \<Rightarrow> Sent_final_stop
              | Some fe \<Rightarrow> Could_not_send_final_stop fe),
       CloseSocket, Sleep 5,
       Print Attempting_to_connect, ConnectAttempt (Some e2), Print (Network_error e2),
       SendAttempt stop_command (final_send_result s2),
       Print (case final_send_result s2 of
                None \<Rightarrow> Sent_final_stop
              | Some fe \<Rightarrow> Could_not_send_final_stop fe),
       CloseSocket, Sleep 5,
       Print Attempting_to_connect, ConnectAttempt None] @ more"
    unfolding run_network_client_trace loop t3 by (simp add: f1 f2)
  then obtain more where m: "fst (run_network_client (s1 # s2 # s3 # rest)) =
      [Print Attempting_to_connect, ConnectAttempt (Some e1), Print (Network_error e1),
       SendAttempt stop_command (final_send_result s1),
       Print (case final_send_result s1 of
                None \<Rightarrow> Sent_final_stop
              | Some fe \<Rightarrow> Could_not_send_final_stop fe),
       CloseSocket, Sleep 5,
       Print Attempting_to_connect, ConnectAttempt (Some e2), Print (Network_error e2),
       SendAttempt stop_command (final_send_result s2),
       Print (case final_send_result s2 of
                None \<Rightarrow> Sent_final_stop
              | Some fe \<Rightarrow> Could_not_send_final_stop fe),
       CloseSocket, Sleep 5,
       Print Attempting_to_connect, ConnectAttempt None] @ more" ..
  have pe: "p = [Print Attempting_to_connect, ConnectAttempt (Some e1), Print (Network_error e1),
              SendAttempt stop_command (final_send_result s1),
              Print (case final_send_result s1 of
                       None \<Rightarrow> Sent_final_stop
                     | Some fe \<Rightarrow> Could_not_send_final_stop fe),
              CloseSocket, Sleep 5,
              Print Attempting_to_connect, ConnectAttempt (Some e2), Print (Network_error e2),
              SendAttempt stop_command (final_send_result s2),
              Print (case final_send_result s2 of
                       None \<Rightarrow> Sent_final_stop
                     | Some fe \<Rightarrow> Could_not_send_final_stop fe),
              CloseSocket, Sleep 5,
              Print Attempting_to_connect, ConnectAttempt None]"
    unfolding p m by simp
  have w: "set (on_wire p) \<subseteq> {stop_command}"
    unfolding pe
    by (cases "final_send_result s1"; cases "final_send_result s2")
      (simp_all add: on_wire_def List.map_filter_simps)
  have "length (filter is_connect p) = 3" "gaps p = [5, 5]"
    "filter is_send p =
       [SendAttempt stop_command (final_send_result s1),
        SendAttempt stop_command (final_send_result s2)]"
    unfolding pe by (simp_all add: gaps_def)
  with pe w show ?thesis by blast
qed

theorem reconnect_third_attempt_witness:
  "length (filter is_connect
     (until_connected (fst (run_network_client [refused_session, timeout_session, idle_session]))))
     = 3
   \<and> gaps (until_connected
        (fst (run_network_client [refused_session, timeout_session, idle_session]))) = [5, 5]
   \<and> filter is_send (until_connected
        (fst (run_network_client [refused_session, timeout_session, idle_session]))) =
       [SendAttempt stop_command (Some BrokenPipeError),
        SendAttempt stop_command (Some SocketTimeout)]"
proof -
  have a: "socket_result refused_session = None"
    "connect_result refused_session = Some ConnectionRefusedError"
    "ConnectionRefusedError \<in> {SocketTimeout, ConnectionRefusedError, ConnectionResetError, BrokenPipeError}"
    by (simp_all add: refused_session_def)
  have b: "socket_result timeout_session = None"
    "connect_result timeout_session = Some SocketTimeout"
    "SocketTimeout \<in> {SocketTimeout, ConnectionRefusedError, ConnectionResetError, BrokenPipeError}"
    by (simp_all add: timeout_session_def)
  have c: "socket_result idle_session = None" "connect_result idle_session = None"
    by (simp_all add: idle_session_def)
  have f: "final_send_result refused_session = Some BrokenPipeError"
    "final_send_result timeout_session = Some SocketTimeout"
    by (simp_all add: refused_session_def timeout_session_def)
  from reconnect_third_attempt [OF a b c refl, of "[]"] show ?thesis
    unfolding f by blast
qed

subsection \<open>Network errors and other exceptions\<close>

lemma try_body_starts:
  "\<exists>tl. fst (snd (try_body s c)) = Print Attempting_to_connect # tl"
  by (simp add: try_body_trace split: option.splits)

lemma session_starts:
  "\<exists>tl. fst (snd (session s c)) = Print Attempting_to_connect # tl"
  using try_body_starts [of s c] by (auto simp: session_trace)

lemma except_clause_fst:
  "fst (except_clause e c) = (if is_network_error e then c else c\<lparr>running := False\<rparr>)"
  by (simp add: except_clause_def)

lemma session_begins:
  "\<exists>tl. fst (snd (session s c)) =
          Print Attempting_to_connect #
          (if socket_result s = None then [ConnectAttempt (connect_result s)] else []) @ tl"
  by (cases "snd (snd (snd (try_body s c)))")
    (auto simp: session_trace try_body_trace split: option.splits)

lemma final_stop_try_body:
  "final_stop (fst (snd (snd (try_body s c)))) r =
     (if socket_result s = None
      then [SendAttempt stop_command r,
            Print (case r of None \<Rightarrow> Sent_final_stop | Some fe \<Rightarrow> Could_not_send_final_stop fe),
            CloseSocket]
      else [])"
proof (cases "socket_result s")
  case None
  then show ?thesis by (simp add: try_body_socket final_stop_explicit)
next
  case (Some x)
  then show ?thesis by (simp add: try_body_socket final_stop_def)
qed

lemma lost_session_raised:
  "try_body lost_session initial_ctl =
     (initial_ctl,
      [Print Attempting_to_connect, ConnectAttempt None, Print Connection_successful,
       PollEvents [], SendAttempt stop_command None,
       Render False (False, False, False, False) None, ClockTick 30,
       PollEvents [], SendAttempt stop_command (Some ConnectionResetError)],
      Some (Socket True), Raised ConnectionResetError)"
  by (simp add: initial_ctl_def lost_session_def idle_tick_def lost_tick_def try_body_def
      tick_def frame_commands_def message_to_send_def sendall_def held_def Let_def)

lemma pipe_session_raised:
  "try_body pipe_session initial_ctl =
     (initial_ctl,
      [Print Attempting_to_connect, ConnectAttempt None, Print Connection_successful,
       PollEvents [], SendAttempt stop_command (Some BrokenPipeError)],
      Some (Socket True), Raised BrokenPipeError)"
  by (simp add: initial_ctl_def pipe_session_def pipe_tick_def try_body_def
      tick_def frame_commands_def message_to_send_def sendall_def held_def Let_def)

text \<open>
  Claim C4. When the \<open>try\<close> body raises a socket timeout, a refused connection, a
  connection reset or a broken pipe, the handler prints the error and leaves the state,
  and so \<open>running\<close>, as it is; the pass ends with the final stop command and \<open>close\<close> (if
  there is a socket) and, while \<open>running\<close> is set, the 5 second wait, after which the loop
  starts the next pass with a new \<open>connect\<close>. When it raises any other exception,
  \<open>running\<close> is cleared, the pass ends with the final stop command and \<open>close\<close> and no
  wait, and the loop is left there, whatever remains of the script.
\<close>

theorem error_classification:
  assumes run: "running c" and raised: "snd (snd (snd (try_body s c))) = Raised e"
  shows "(e \<in> {SocketTimeout, ConnectionRefusedError, ConnectionResetError, BrokenPipeError} \<longrightarrow>
            fst (session s c) = fst (try_body s c)
          \<and> fst (snd (session s c)) =
              fst (snd (try_body s c)) @ [Print (Network_error e)] @
              (if socket_result s = None
               then [SendAttempt stop_command (final_send_result s),
                     Print (case final_send_result s of
                              None \<Rightarrow> Sent_final_stop
                            | Some fe \<Rightarrow> Could_not_send_final_stop fe),
                     CloseSocket]
               else []) @
              (if running (fst (try_body s c)) then [Sleep 5] else [])
          \<and> (running (fst (try_body s c)) \<longrightarrow>
               (\<exists>tl. fst (snd (retry_loop (s # s' # ss) c)) =
                       fst (snd (session s c)) @
                       Print Attempting_to_connect #
                       (if socket_result s' = None then [ConnectAttempt (connect_result s')]
                        else []) @ tl)))
       \<and> (e \<notin> {SocketTimeout, ConnectionRefusedError, ConnectionResetError, BrokenPipeError} \<longrightarrow>
            \<not> running (fst (session s c))
          \<and> retry_loop (s # s' # ss) c =
              ((fst (try_body s c))\<lparr>running := False\<rparr>,
               fst (snd (try_body s c)) @ [Print (Unexpected_error e)] @
               (if socket_result s = None
                then [SendAttempt stop_command (final_send_result s),
                      Print (case final_send_result s of
                               None \<Rightarrow> Sent_final_stop
                             | Some fe \<Rightarrow> Could_not_send_final_stop fe),
                      CloseSocket]
                else []),
               True))"
proof (intro conjI impI)
  assume "e \<in> {SocketTimeout, ConnectionRefusedError, ConnectionResetError, BrokenPipeError}"
  then have n: "is_network_error e" by (simp add: network_classes)
  show st: "fst (session s c) = fst (try_body s c)"
    using raised n by (simp add: session_fst except_clause_fst)
  show tr: "fst (snd (session s c)) =
      fst (snd (try_body s c)) @ [Print (Network_error e)] @
      (if socket_result s = None
       then [SendAttempt stop_command (final_send_result s),
             Print (case final_send_result s of
                      None \<Rightarrow> Sent_final_stop
                    | Some fe \<Rightarrow> Could_not_send_final_stop fe),
             CloseSocket]
       else []) @
      (if running (fst (try_body s c)) then [Sleep 5] else [])"
    using raised n
    by (simp add: session_trace except_clause_fst except_clause_lines finally_clause_def
        final_stop_try_body)
  assume r1: "running (fst (try_body s c))"
  have e: "snd (snd (session s c))" using raised by (simp add: session_ended)
  obtain tl where tl: "fst (snd (session s' (fst (session s c)))) =
      Print Attempting_to_connect #
      (if socket_result s' = None then [ConnectAttempt (connect_result s')] else []) @ tl"
    using session_begins by blast
  have "fst (snd (retry_loop (s # s' # ss) c)) =
      fst (snd (session s c)) @ fst (snd (session s' (fst (session s c)))) @
      (if snd (snd (session s' (fst (session s c))))
       then fst (snd (retry_loop ss (fst (session s' (fst (session s c)))))) else [])"
    using run e r1 st by (simp add: retry_loop_Cons_trace del: retry_loop.simps)
  then show "\<exists>tl. fst (snd (retry_loop (s # s' # ss) c)) =
      fst (snd (session s c)) @
      Print Attempting_to_connect #
      (if socket_result s' = None then [ConnectAttempt (connect_result s')] else []) @ tl"
    unfolding tl by simp
next
  assume "e \<notin> {SocketTimeout, ConnectionRefusedError, ConnectionResetError, BrokenPipeError}"
  then have n: "\<not> is_network_error e" by (simp add: network_classes)
  have st: "fst (session s c) = (fst (try_body s c))\<lparr>running := False\<rparr>"
    using raised n by (simp add: session_fst except_clause_fst)
  show nr: "\<not> running (fst (session s c))"
    unfolding st by simp
  have tr: "fst (snd (session s c)) =
      fst (snd (try_body s c)) @ [Print (Unexpected_error e)] @
      (if socket_result s = None
       then [SendAttempt stop_command (final_send_result s),
             Print (case final_send_result s of
                      None \<Rightarrow> Sent_final_stop
                    | Some fe \<Rightarrow> Could_not_send_final_stop fe),
             CloseSocket]
       else [])"
    using raised n
    by (simp add: session_trace except_clause_fst except_clause_lines finally_clause_def
        final_stop_try_body)
  have e: "snd (snd (session s c))" using raised by (simp add: session_ended)
  obtain c1 o1 b where s: "session s c = (c1, o1, b)" by (cases "session s c")
  show "retry_loop (s # s' # ss) c =
      ((fst (try_body s c))\<lparr>running := False\<rparr>,
       fst (snd (try_body s c)) @ [Print (Unexpected_error e)] @
       (if socket_result s = None
        then [SendAttempt stop_command (final_send_result s),
              Print (case final_send_result s of
                       None \<Rightarrow> Sent_final_stop
                     | Some fe \<Rightarrow> Could_not_send_final_stop fe),
              CloseSocket]
        else []),
       True)"
    using run nr tr e s st by simp
qed

theorem error_classification_witness:
  "fst (session timeout_session initial_ctl) = initial_ctl
   \<and> (\<exists>tl. fst (snd (retry_loop [timeout_session, idle_session] initial_ctl)) =
         [Print Attempting_to_connect, ConnectAttempt (Some SocketTimeout),
          Print (Network_error SocketTimeout),
          SendAttempt stop_command (Some SocketTimeout),
          Print (Could_not_send_final_stop SocketTimeout), CloseSocket, Sleep 5,
          Print Attempting_to_connect, ConnectAttempt None] @ tl)
   \<and> fst (session refused_session initial_ctl) = initial_ctl
   \<and> (\<exists>tl. fst (snd (retry_loop [refused_session, idle_session] initial_ctl)) =
         [Print Attempting_to_connect, ConnectAttempt (Some ConnectionRefusedError),
          Print (Network_error ConnectionRefusedError),
          SendAttempt stop_command (Some BrokenPipeError),
          Print (Could_not_send_final_stop BrokenPipeError), CloseSocket, Sleep 5,
          Print Attempting_to_connect, ConnectAttempt None] @ tl)
   \<and> fst (session lost_session initial_ctl) = initial_ctl
   \<and> (\<exists>tl. fst (snd (retry_loop [lost_session, idle_session] initial_ctl)) =
         [Print Attempting_to_connect, ConnectAttempt None, Print Connection_successful,
          PollEvents [], SendAttempt stop_command None,
          Render False (False, False, False, False) None, ClockTick 30,
          PollEvents [], SendAttempt stop_command (Some ConnectionResetError),
          Print (Network_error ConnectionResetError),
          SendAttempt stop_command (Some BrokenPipeError),
          Print (Could_not_send_final_stop BrokenPipeError), CloseSocket, Sleep 5,
          Print Attempting_to_connect, ConnectAttempt None] @ tl)
   \<and> fst (session pipe_session initial_ctl) = initial_ctl
   \<and> (\<exists>tl. fst (snd (retry_loop [pipe_session, idle_session] initial_ctl)) =
         [Print Attempting_to_connect, ConnectAttempt None, Print Connection_successful,
          PollEvents [], SendAttempt stop_command (Some BrokenPipeError),
          Print (Network_error BrokenPipeError),
          SendAttempt stop_command (Some BrokenPipeError),
          Print (Could_not_send_final_stop BrokenPipeError), CloseSocket, Sleep 5,
          Print Attempting_to_connect, ConnectAttempt None] @ tl)
   \<and> retry_loop [unreachable_session, idle_session] initial_ctl =
       (initial_ctl\<lparr>running := False\<rparr>,
        [Print Attempting_to_connect, ConnectAttempt (Some OtherException),
         Print (Unexpected_error OtherException),
         SendAttempt stop_command (Some BrokenPipeError),
         Print (Could_not_send_final_stop BrokenPipeError), CloseSocket],
        True)"
proof -
  have r: "running initial_ctl" by (simp add: initial_ctl_def)
  have i: "socket_result idle_session = None" "connect_result idle_session = None"
    by (simp_all add: idle_session_def)
  have t1: "try_body timeout_session initial_ctl =
      (initial_ctl, [Print Attempting_to_connect, ConnectAttempt (Some SocketTimeout)],
       Some (Socket False), Raised SocketTimeout)"
    by (simp add: try_body_failed_connect timeout_session_def)
  have t2: "try_body refused_session initial_ctl =
      (initial_ctl, [Print Attempting_to_connect, ConnectAttempt (Some ConnectionRefusedError)],
       Some (Socket False), Raised ConnectionRefusedError)"
    by (simp add: try_body_failed_connect refused_session_def)
  have t5: "try_body unreachable_session initial_ctl =
      (initial_ctl, [Print Attempting_to_connect, ConnectAttempt (Some OtherException)],
       Some (Socket False), Raised OtherException)"
    by (simp add: try_body_failed_connect unreachable_session_def)
  have f: "socket_result timeout_session = None"
    "final_send_result timeout_session = Some SocketTimeout"
    "socket_result refused_session = None"
    "final_send_result refused_session = Some BrokenPipeError"
    "socket_result lost_session = None"
    "final_send_result lost_session = Some BrokenPipeError"
    "socket_result pipe_session = None"
    "final_send_result pipe_session = Some BrokenPipeError"
    "socket_result unreachable_session = None"
    "final_send_result unreachable_session = Some BrokenPipeError"
    by (simp_all add: timeout_session_def refused_session_def lost_session_def
        pipe_session_def unreachable_session_def)
  have 1: "fst (session timeout_session initial_ctl) = initial_ctl
     \<and> (\<exists>tl. fst (snd (retry_loop [timeout_session, idle_session] initial_ctl)) =
         [Print Attempting_to_connect, ConnectAttempt (Some SocketTimeout),
          Print (Network_error SocketTimeout),
          SendAttempt stop_command (Some SocketTimeout),
          Print (Could_not_send_final_stop SocketTimeout), CloseSocket, Sleep 5,
          Print Attempting_to_connect, ConnectAttempt None] @ tl)"
    using error_classification [of initial_ctl timeout_session SocketTimeout idle_session "[]"]
    by (auto simp: t1 r i f simp del: retry_loop.simps)
  have 2: "fst (session refused_session initial_ctl) = initial_ctl
     \<and> (\<exists>tl. fst (snd (retry_loop [refused_session, idle_session] initial_ctl)) =
         [Print Attempting_to_connect, ConnectAttempt (Some ConnectionRefusedError),
          Print (Network_error ConnectionRefusedError),
          SendAttempt stop_command (Some BrokenPipeError),
          Print (Could_not_send_final_stop BrokenPipeError), CloseSocket, Sleep 5,
          Print Attempting_to_connect, ConnectAttempt None] @ tl)"
    using error_classification
      [of initial_ctl refused_session ConnectionRefusedError idle_session "[]"]
    by (auto simp: t2 r i f simp del: retry_loop.simps)
  have 3: "fst (session lost_session initial_ctl) = initial_ctl
     \<and> (\<exists>tl. fst (snd (retry_loop [lost_session, idle_session] initial_ctl)) =
         [Print Attempting_to_connect, ConnectAttempt None, Print Connection_successful,
          PollEvents [], SendAttempt stop_command None,
          Render False (False, False, False, False) None, ClockTick 30,
          PollEvents [], SendAttempt stop_command (Some ConnectionResetError),
          Print (Network_error ConnectionResetError),
          SendAttempt stop_command (Some BrokenPipeError),
          Print (Could_not_send_final_stop BrokenPipeError), CloseSocket, Sleep 5,
          Print Attempting_to_connect, ConnectAttempt None] @ tl)"
    using error_classification
      [of initial_ctl lost_session ConnectionResetError idle_session "[]"]
    by (auto simp: lost_session_raised r i f simp del: retry_loop.simps)
  have 4: "fst (session pipe_session initial_ctl) = initial_ctl
     \<and> (\<exists>tl. fst (snd (retry_loop [pipe_session, idle_session] initial_ctl)) =
         [Print Attempting_to_connect, ConnectAttempt None, Print Connection_successful,
          PollEvents [], SendAttempt stop_command (Some BrokenPipeError),
          Print (Network_error BrokenPipeError),
          SendAttempt stop_command (Some BrokenPipeError),
          Print (Could_not_send_final_stop BrokenPipeError), CloseSocket, Sleep 5,
          Print Attempting_to_connect, ConnectAttempt None] @ tl)"
    using error_classification
      [of initial_ctl pipe_session BrokenPipeError idle_session "[]"]
    by (auto simp: pipe_session_raised r i f simp del: retry_loop.simps)
  have 5: "retry_loop [unreachable_session, idle_session] initial_ctl =
       (initial_ctl\<lparr>running := False\<rparr>,
        [Print Attempting_to_connect, ConnectAttempt (Some OtherException),
         Print (Unexpected_error OtherException),
         SendAttempt stop_command (Some BrokenPipeError),
         Print (Could_not_send_final_stop BrokenPipeError), CloseSocket],
        True)"
    using error_classification
      [of initial_ctl unreachable_session OtherException idle_session "[]"]
    by (simp add: t5 r f del: retry_loop.simps)
  from 1 2 3 4 5 show ?thesis by blast
qed

subsection \<open>Shutdown\<close>




lemma frame_obs_plain:
  assumes "frame_obs x"
  shows "\<not> is_connect x" "x \<noteq> Sleep n" "is_shutdown_signal x \<Longrightarrow> \<exists>evs. x = PollEvents evs"
  using assms by (cases x rule: frame_obs.cases; simp)+




























end
